theory Spec2Isabelle
  imports Main
begin

section \<open>Field descriptions of py-mcsv\<close>

text \<open>
  A shallow embedding of \<^verbatim>\<open>mcsv/field_descriptions.py\<close> and of the row mapping of
  \<^verbatim>\<open>mcsv/writer.py\<close>. Python's \<^verbatim>\<open>None\<close> is \<open>None\<close> of an option type, a raised
  exception is a value of \<open>error\<close>, the text stream \<^verbatim>\<open>out\<close> is the string written to it
  so far, and the class attributes \<^verbatim>\<open>INSTANCE\<close> are a record that the module-level
  assignments update one after the other.
\<close>

subsection \<open>Collaborators that the two modules import\<close>

text \<open>
  Modelled from the spec: the enumeration \<^verbatim>\<open>DataType\<close> of \<^verbatim>\<open>mcsv.field_description\<close> is
  not among the sources. Its members are the eleven the spec lists; \<open>OTHER\<close> stands for
  any further hashable value that a caller hands to the registry.
\<close>

datatype DataType =
    BOOLEAN
  | INTEGER
  | FLOAT
  | DECIMAL
  | CURRENCY_INTEGER
  | CURRENCY_DECIMAL
  | PERCENTAGE_FLOAT
  | PERCENTAGE_DECIMAL
  | DATE
  | DATETIME
  | TEXT
  | OTHER nat

definition recognized_members :: "DataType list" where
  "recognized_members =
     [BOOLEAN, INTEGER, FLOAT, DECIMAL, CURRENCY_INTEGER, CURRENCY_DECIMAL,
      PERCENTAGE_FLOAT, PERCENTAGE_DECIMAL, DATE, DATETIME, TEXT]"

text \<open>
  The only exception the modelled code can raise by itself: a method called on
  \<^verbatim>\<open>None\<close> (\<^verbatim>\<open>'NoneType' object has no attribute ...\<close>).
\<close>

datatype error = AttributeError

type_synonym TextIO = string

text \<open>
  Modelled from the spec: the helpers \<^verbatim>\<open>none_to_empty\<close> and \<^verbatim>\<open>render\<close> of \<^verbatim>\<open>mcsv.util\<close>
  are not among the sources. After the spec's grammar
  \<^verbatim>\<open><type-name>/<param1>/<param2>/...\<close>, \<open>util_render\<close> writes its words to the stream
  with one \<^verbatim>\<open>/\<close> between two of them, and \<open>none_to_empty\<close> turns an absent string into
  the empty one (an absent parameter is "written as an empty segment").
\<close>

definition none_to_empty :: "string option \<Rightarrow> string" where
  "none_to_empty s = (case s of None \<Rightarrow> '''' | Some t \<Rightarrow> t)"

fun join_words :: "string list \<Rightarrow> string" where
  "join_words [] = ''''"
| "join_words [w] = w"
| "join_words (w # ws) = w @ ''/'' @ join_words ws"

definition util_render :: "TextIO \<Rightarrow> string list \<Rightarrow> TextIO" where
  "util_render out words = out @ join_words words"

text \<open>
  Modelled from the spec: the processor classes of \<^verbatim>\<open>mcsv.field_processors\<close> are not
  among the sources. A processor is the constructor call that builds it, with the
  arguments in the order of the call.
\<close>

datatype from_timestamp = date_fromtimestamp | datetime_fromtimestamp

datatype FieldProcessor =
    BooleanFieldProcessor string string string
  | CurrencyFieldProcessor "bool option" "string option" FieldProcessor string
  | DateAndDatetimeFieldProcessor from_timestamp string "string option" string
  | DecimalFieldProcessor "string option" string string
  | FloatFieldProcessor "string option" string string
  | IntegerFieldProcessor "string option" string
  | PercentageFieldProcessor bool "string option" FieldProcessor string
  | TextFieldProcessor string

subsection \<open>The classes of field\_descriptions.py\<close>

text \<open>
  One constructor per class, with the arguments of \<^verbatim>\<open>__init__\<close> in their order. The
  wrapped description of a currency or percentage description is an option: the
  module itself builds two of its instances with \<^verbatim>\<open>None\<close> in that place (see
  \<open>module_load\<close>).
\<close>

datatype FieldDescription =
    BooleanFieldDescription string string
  | CurrencyDecimalFieldDescription "bool option" "string option" "FieldDescription option"
  | CurrencyIntegerFieldDescription "bool option" "string option" "FieldDescription option"
  | DateFieldDescription string "string option"
  | DatetimeFieldDescription string "string option"
  | DecimalFieldDescription "string option" string
  | FloatFieldDescription "string option" string
  | IntegerFieldDescription "string option"
  | PercentageFloatFieldDescription bool "string option" "FieldDescription option"
  | PercentageDecimalFieldDescription bool "string option" "FieldDescription option"
  | TextFieldDescription

text \<open>The truth value of \<^verbatim>\<open>self._pre\<close> in \<^verbatim>\<open>"pre" if self._pre else "post"\<close>.\<close>

definition truth_value :: "bool option \<Rightarrow> bool" where
  "truth_value pre = (case pre of None \<Rightarrow> False | Some b \<Rightarrow> b)"

text \<open>
  \<^verbatim>\<open>render(self, out)\<close>: the stream after the call, and the exception if one was raised.
  What was written before the exception stays written.
\<close>

fun render :: "FieldDescription \<Rightarrow> TextIO \<Rightarrow> TextIO \<times> error option" where
  "render (BooleanFieldDescription true_word false_word) out =
     (if false_word \<noteq> ''''
      then (util_render out [''boolean'', true_word, false_word], None)
      else (util_render out [''boolean'', true_word], None))"
| "render (CurrencyDecimalFieldDescription pre currency decimal_description) out =
     (let pre' = none_to_empty (Some (if truth_value pre then ''pre'' else ''post''));
          currency' = none_to_empty currency;
          out = util_render out [''currency'', pre', currency'];
          out = out @ ''/''
      in case decimal_description of
           None \<Rightarrow> (out, Some AttributeError)
         | Some d \<Rightarrow> render d out)"
| "render (CurrencyIntegerFieldDescription pre currency integer_description) out =
     (let pre' = none_to_empty (Some (if truth_value pre then ''pre'' else ''post''));
          currency' = none_to_empty currency;
          out = util_render out [''currency'', pre', currency'];
          out = out @ ''/''
      in case integer_description of
           None \<Rightarrow> (out, Some AttributeError)
         | Some d \<Rightarrow> render d out)"
| "render (DateFieldDescription date_format locale_name) out =
     (case locale_name of
        None \<Rightarrow> (util_render out [''date'', date_format], None)
      | Some l \<Rightarrow> (util_render out [''date'', date_format, l], None))"
| "render (DatetimeFieldDescription date_format locale_name) out =
     (case locale_name of
        None \<Rightarrow> (util_render out [''datetime'', date_format], None)
      | Some l \<Rightarrow> (util_render out [''datetime'', date_format, l], None))"
| "render (DecimalFieldDescription thousand_sep decimal_sep) out =
     (util_render out [''decimal'', none_to_empty thousand_sep, decimal_sep], None)"
| "render (FloatFieldDescription thousand_sep decimal_sep) out =
     (util_render out [''float'', none_to_empty thousand_sep, decimal_sep], None)"
| "render (IntegerFieldDescription thousand_sep) out =
     (case thousand_sep of
        None \<Rightarrow> (out @ ''integer'', None)
      | Some _ \<Rightarrow> (util_render out [''integer'', none_to_empty thousand_sep], None))"
| "render (PercentageFloatFieldDescription pre sign float_description) out =
     (let pre' = none_to_empty (Some (if pre then ''pre'' else ''post''));
          out = util_render out [''percentage'', pre', none_to_empty sign];
          out = out @ ''/''
      in case float_description of
           None \<Rightarrow> (out, Some AttributeError)
         | Some d \<Rightarrow> render d out)"
| "render (PercentageDecimalFieldDescription pre sign decimal_description) out =
     (let pre' = none_to_empty (Some (if pre then ''pre'' else ''post''));
          out = util_render out [''percentage'', pre', none_to_empty sign];
          out = out @ ''/''
      in case decimal_description of
           None \<Rightarrow> (out, Some AttributeError)
         | Some d \<Rightarrow> render d out)"
| "render TextFieldDescription out = (out @ ''text'', None)"

text \<open>
  \<^verbatim>\<open>to_field_processor(self, null_value)\<close>: the description after the call, and the
  processor or the exception. No branch of the source assigns to an attribute of
  \<^verbatim>\<open>self\<close>; a composite hands the call on to the description it wraps, whose state
  after the call is put back in its place.
\<close>

fun to_field_processor ::
  "FieldDescription \<Rightarrow> string \<Rightarrow> FieldDescription \<times> (error + FieldProcessor)" where
  "to_field_processor (BooleanFieldDescription true_word false_word) null_value =
     (BooleanFieldDescription true_word false_word,
      Inr (BooleanFieldProcessor true_word false_word null_value))"
| "to_field_processor (CurrencyDecimalFieldDescription pre currency decimal_description) null_value =
     (case decimal_description of
        None \<Rightarrow> (CurrencyDecimalFieldDescription pre currency None, Inl AttributeError)
      | Some d \<Rightarrow>
          (case to_field_processor d null_value of
             (d', Inl e) \<Rightarrow> (CurrencyDecimalFieldDescription pre currency (Some d'), Inl e)
           | (d', Inr processor) \<Rightarrow>
               (CurrencyDecimalFieldDescription pre currency (Some d'),
                Inr (CurrencyFieldProcessor pre currency processor null_value))))"
| "to_field_processor (CurrencyIntegerFieldDescription pre currency integer_description) null_value =
     (case integer_description of
        None \<Rightarrow> (CurrencyIntegerFieldDescription pre currency None, Inl AttributeError)
      | Some d \<Rightarrow>
          (case to_field_processor d null_value of
             (d', Inl e) \<Rightarrow> (CurrencyIntegerFieldDescription pre currency (Some d'), Inl e)
           | (d', Inr processor) \<Rightarrow>
               (CurrencyIntegerFieldDescription pre currency (Some d'),
                Inr (CurrencyFieldProcessor pre currency processor null_value))))"
| "to_field_processor (DateFieldDescription date_format locale_name) null_value =
     (DateFieldDescription date_format locale_name,
      Inr (DateAndDatetimeFieldProcessor date_fromtimestamp date_format locale_name null_value))"
| "to_field_processor (DatetimeFieldDescription date_format locale_name) null_value =
     (DatetimeFieldDescription date_format locale_name,
      Inr (DateAndDatetimeFieldProcessor datetime_fromtimestamp date_format locale_name
             null_value))"
| "to_field_processor (DecimalFieldDescription thousand_sep decimal_sep) null_value =
     (DecimalFieldDescription thousand_sep decimal_sep,
      Inr (DecimalFieldProcessor thousand_sep decimal_sep null_value))"
| "to_field_processor (FloatFieldDescription thousand_sep decimal_sep) null_value =
     (FloatFieldDescription thousand_sep decimal_sep,
      Inr (FloatFieldProcessor thousand_sep decimal_sep null_value))"
| "to_field_processor (IntegerFieldDescription thousand_sep) null_value =
     (IntegerFieldDescription thousand_sep, Inr (IntegerFieldProcessor thousand_sep null_value))"
| "to_field_processor (PercentageFloatFieldDescription pre sign float_description) null_value =
     (case float_description of
        None \<Rightarrow> (PercentageFloatFieldDescription pre sign None, Inl AttributeError)
      | Some d \<Rightarrow>
          (case to_field_processor d null_value of
             (d', Inl e) \<Rightarrow> (PercentageFloatFieldDescription pre sign (Some d'), Inl e)
           | (d', Inr processor) \<Rightarrow>
               (PercentageFloatFieldDescription pre sign (Some d'),
                Inr (PercentageFieldProcessor pre sign processor null_value))))"
| "to_field_processor (PercentageDecimalFieldDescription pre sign decimal_description) null_value =
     (case decimal_description of
        None \<Rightarrow> (PercentageDecimalFieldDescription pre sign None, Inl AttributeError)
      | Some d \<Rightarrow>
          (case to_field_processor d null_value of
             (d', Inl e) \<Rightarrow> (PercentageDecimalFieldDescription pre sign (Some d'), Inl e)
           | (d', Inr processor) \<Rightarrow>
               (PercentageDecimalFieldDescription pre sign (Some d'),
                Inr (PercentageFieldProcessor pre sign processor null_value))))"
| "to_field_processor TextFieldDescription null_value =
     (TextFieldDescription, Inr (TextFieldProcessor null_value))"

fun get_data_type :: "FieldDescription \<Rightarrow> DataType" where
  "get_data_type (BooleanFieldDescription _ _) = BOOLEAN"
| "get_data_type (CurrencyDecimalFieldDescription _ _ _) = CURRENCY_DECIMAL"
| "get_data_type (CurrencyIntegerFieldDescription _ _ _) = CURRENCY_INTEGER"
| "get_data_type (DateFieldDescription _ _) = DATE"
| "get_data_type (DatetimeFieldDescription _ _) = DATETIME"
| "get_data_type (DecimalFieldDescription _ _) = DECIMAL"
| "get_data_type (FloatFieldDescription _ _) = FLOAT"
| "get_data_type (IntegerFieldDescription _) = INTEGER"
| "get_data_type (PercentageFloatFieldDescription _ _ _) = PERCENTAGE_FLOAT"
| "get_data_type (PercentageDecimalFieldDescription _ _ _) = PERCENTAGE_DECIMAL"
| "get_data_type TextFieldDescription = TEXT"

subsection \<open>The canonical forms\<close>

text \<open>
  The class attribute \<^verbatim>\<open>INSTANCE\<close> of each class. Every class body sets it to
  \<^verbatim>\<open>None\<close>; the assignments at the end of the module then run in the order of the
  source, each reading the attributes as they are at that moment.
\<close>

record class_attrs =
  Boolean_INSTANCE :: "FieldDescription option"
  CurrencyDecimal_INSTANCE :: "FieldDescription option"
  CurrencyInteger_INSTANCE :: "FieldDescription option"
  Date_INSTANCE :: "FieldDescription option"
  Datetime_INSTANCE :: "FieldDescription option"
  Decimal_INSTANCE :: "FieldDescription option"
  Float_INSTANCE :: "FieldDescription option"
  Integer_INSTANCE :: "FieldDescription option"
  PercentageFloat_INSTANCE :: "FieldDescription option"
  PercentageDecimal_INSTANCE :: "FieldDescription option"
  Text_INSTANCE :: "FieldDescription option"

definition class_bodies :: class_attrs where
  "class_bodies =
     \<lparr>Boolean_INSTANCE = None, CurrencyDecimal_INSTANCE = None,
      CurrencyInteger_INSTANCE = None, Date_INSTANCE = None, Datetime_INSTANCE = None,
      Decimal_INSTANCE = None, Float_INSTANCE = None, Integer_INSTANCE = None,
      PercentageFloat_INSTANCE = None, PercentageDecimal_INSTANCE = None,
      Text_INSTANCE = None\<rparr>"

definition module_load :: class_attrs where
  "module_load =
     (let c = class_bodies;
          c = c\<lparr>Boolean_INSTANCE := Some (BooleanFieldDescription ''true'' ''false'')\<rparr>;
          c = c\<lparr>CurrencyInteger_INSTANCE :=
                  Some (CurrencyIntegerFieldDescription None None (Integer_INSTANCE c))\<rparr>;
          c = c\<lparr>CurrencyDecimal_INSTANCE :=
                  Some (CurrencyDecimalFieldDescription None None (Decimal_INSTANCE c))\<rparr>;
          c = c\<lparr>Date_INSTANCE := Some (DateFieldDescription ''yyyy-MM-dd'' None)\<rparr>;
          c = c\<lparr>Datetime_INSTANCE :=
                  Some (DatetimeFieldDescription ''yyyy-MM-dd'T'HH:mm:ss'' None)\<rparr>;
          c = c\<lparr>Decimal_INSTANCE := Some (DecimalFieldDescription None ''.'')\<rparr>;
          c = c\<lparr>Float_INSTANCE := Some (FloatFieldDescription None ''.'')\<rparr>;
          c = c\<lparr>Integer_INSTANCE := Some (IntegerFieldDescription None)\<rparr>;
          c = c\<lparr>PercentageDecimal_INSTANCE :=
                  Some (PercentageDecimalFieldDescription False (Some ''%'')
                          (Decimal_INSTANCE c))\<rparr>;
          c = c\<lparr>PercentageFloat_INSTANCE :=
                  Some (PercentageFloatFieldDescription False (Some ''%'')
                          (Float_INSTANCE c))\<rparr>;
          c = c\<lparr>Text_INSTANCE := Some TextFieldDescription\<rparr>
      in c)"

text \<open>
  \<^verbatim>\<open>data_type_to_field_description\<close>: the dictionary literal, read when the function is
  called, and \<^verbatim>\<open>.get\<close> with the text instance as default.
\<close>

definition data_type_to_field_description ::
  "class_attrs \<Rightarrow> DataType \<Rightarrow> FieldDescription option" where
  "data_type_to_field_description c data_type =
     (case map_of
        [(BOOLEAN, Boolean_INSTANCE c),
         (CURRENCY_INTEGER, CurrencyInteger_INSTANCE c),
         (CURRENCY_DECIMAL, CurrencyDecimal_INSTANCE c),
         (DATE, Date_INSTANCE c),
         (DATETIME, Datetime_INSTANCE c),
         (DECIMAL, Decimal_INSTANCE c),
         (FLOAT, Float_INSTANCE c),
         (INTEGER, Integer_INSTANCE c),
         (PERCENTAGE_DECIMAL, PercentageDecimal_INSTANCE c),
         (PERCENTAGE_FLOAT, PercentageFloat_INSTANCE c),
         (TEXT, Text_INSTANCE c)] data_type of
        Some v \<Rightarrow> v
      | None \<Rightarrow> Text_INSTANCE c)"

subsection \<open>The row mapping of writer.py\<close>

text \<open>
  Modelled from the spec: the class \<^verbatim>\<open>MetaCSVData\<close> of \<^verbatim>\<open>mcsv.meta_csv_data\<close> is not
  among the sources. The row mapping reads two of its attributes: the null-value
  token of the table and the dictionary of the field descriptions by column index,
  here the list of its items in their order (a dictionary holds a key once).
\<close>

record MetaCSVData =
  null_value :: string
  field_description_by_index :: "(nat \<times> FieldDescription) list"

text \<open>
  The dictionary comprehension of \<^verbatim>\<open>_get_map_row\<close>: one call of
  \<^verbatim>\<open>to_field_processor\<close> per item, in the order of the items, each result stored under
  its index; an exception of a call ends the comprehension.
\<close>

fun build_processors ::
  "string \<Rightarrow> (nat \<times> FieldDescription) list \<Rightarrow> (nat \<rightharpoonup> FieldProcessor) \<Rightarrow>
   error + (nat \<rightharpoonup> FieldProcessor)" where
  "build_processors token [] processors = Inr processors"
| "build_processors token ((i, d) # items) processors =
     (case snd (to_field_processor d token) of
        Inl e \<Rightarrow> Inl e
      | Inr p \<Rightarrow> build_processors token items (processors(i \<mapsto> p)))"

text \<open>
  The list comprehension of \<^verbatim>\<open>map_row\<close> over \<^verbatim>\<open>enumerate(row)\<close>. The method
  \<^verbatim>\<open>to_string\<close> of the processors and the conversion \<^verbatim>\<open>str\<close> are parameters: the
  processors are not among the sources, and a \<^verbatim>\<open>to_string\<close> may raise.
\<close>

fun map_cells ::
  "(FieldProcessor \<Rightarrow> 'v \<Rightarrow> error + string) \<Rightarrow> ('v \<Rightarrow> string) \<Rightarrow>
   (nat \<rightharpoonup> FieldProcessor) \<Rightarrow> (nat \<times> 'v) list \<Rightarrow> error + string list" where
  "map_cells to_string str processors [] = Inr []"
| "map_cells to_string str processors ((i, v) # rest) =
     (case (case processors i of
              Some p \<Rightarrow> to_string p v
            | None \<Rightarrow> Inr (str v)) of
        Inl e \<Rightarrow> Inl e
      | Inr cell \<Rightarrow>
          (case map_cells to_string str processors rest of
             Inl e \<Rightarrow> Inl e
           | Inr cells \<Rightarrow> Inr (cell # cells)))"

definition map_row ::
  "(FieldProcessor \<Rightarrow> 'v \<Rightarrow> error + string) \<Rightarrow> ('v \<Rightarrow> string) \<Rightarrow>
   (nat \<rightharpoonup> FieldProcessor) \<Rightarrow> 'v list \<Rightarrow> error + string list" where
  "map_row to_string str processors row =
     map_cells to_string str processors (enumerate 0 row)"

definition get_map_row ::
  "(FieldProcessor \<Rightarrow> 'v \<Rightarrow> error + string) \<Rightarrow> ('v \<Rightarrow> string) \<Rightarrow> MetaCSVData \<Rightarrow>
   error + ('v list \<Rightarrow> error + string list)" where
  "get_map_row to_string str data =
     (case build_processors (null_value data) (field_description_by_index data) Map.empty of
        Inl e \<Rightarrow> Inl e
      | Inr processors \<Rightarrow> Inr (map_row to_string str processors))"

section \<open>The canonical forms after the module is loaded\<close>

lemma module_load_Boolean:
  "Boolean_INSTANCE module_load = Some (BooleanFieldDescription ''true'' ''false'')"
  by (simp add: module_load_def class_bodies_def)

lemma module_load_CurrencyInteger:
  "CurrencyInteger_INSTANCE module_load = Some (CurrencyIntegerFieldDescription None None None)"
  by (simp add: module_load_def class_bodies_def)

lemma module_load_CurrencyDecimal:
  "CurrencyDecimal_INSTANCE module_load = Some (CurrencyDecimalFieldDescription None None None)"
  by (simp add: module_load_def class_bodies_def)

lemma module_load_Date:
  "Date_INSTANCE module_load = Some (DateFieldDescription ''yyyy-MM-dd'' None)"
  by (simp add: module_load_def class_bodies_def)

lemma module_load_Datetime:
  "Datetime_INSTANCE module_load = Some (DatetimeFieldDescription ''yyyy-MM-dd'T'HH:mm:ss'' None)"
  by (simp add: module_load_def class_bodies_def)

lemma module_load_Decimal:
  "Decimal_INSTANCE module_load = Some (DecimalFieldDescription None ''.'')"
  by (simp add: module_load_def class_bodies_def)

lemma module_load_Float:
  "Float_INSTANCE module_load = Some (FloatFieldDescription None ''.'')"
  by (simp add: module_load_def class_bodies_def)

lemma module_load_Integer:
  "Integer_INSTANCE module_load = Some (IntegerFieldDescription None)"
  by (simp add: module_load_def class_bodies_def)

lemma module_load_PercentageDecimal:
  "PercentageDecimal_INSTANCE module_load =
     Some (PercentageDecimalFieldDescription False (Some ''%'')
             (Some (DecimalFieldDescription None ''.'')))"
  by (simp add: module_load_def class_bodies_def)

lemma module_load_PercentageFloat:
  "PercentageFloat_INSTANCE module_load =
     Some (PercentageFloatFieldDescription False (Some ''%'')
             (Some (FloatFieldDescription None ''.'')))"
  by (simp add: module_load_def class_bodies_def)

lemma module_load_Text:
  "Text_INSTANCE module_load = Some TextFieldDescription"
  by (simp add: module_load_def class_bodies_def)

lemmas module_load_simps =
  module_load_Boolean module_load_CurrencyInteger module_load_CurrencyDecimal
  module_load_Date module_load_Datetime module_load_Decimal module_load_Float
  module_load_Integer module_load_PercentageDecimal module_load_PercentageFloat
  module_load_Text

text \<open>
  C3: the canonical instances of Integer, Decimal, Boolean and Date are the narrowest
  ones: no thousand separator; no thousand separator and decimal separator \<^verbatim>\<open>.\<close>;
  the words \<^verbatim>\<open>true\<close> and \<^verbatim>\<open>false\<close>; the pattern \<^verbatim>\<open>yyyy-MM-dd\<close> and no locale.
\<close>

theorem canonical_instances_narrowest:
  "Integer_INSTANCE module_load = Some (IntegerFieldDescription None) \<and>
   Decimal_INSTANCE module_load = Some (DecimalFieldDescription None ''.'') \<and>
   Boolean_INSTANCE module_load = Some (BooleanFieldDescription ''true'' ''false'') \<and>
   Date_INSTANCE module_load = Some (DateFieldDescription ''yyyy-MM-dd'' None)"
  by (simp add: module_load_simps)

section \<open>The registry\<close>

text \<open>
  C1: a value that is none of the eleven recognized members is resolved to the text
  instance, \<^verbatim>\<open>TextFieldDescription.INSTANCE\<close>; the lookup has no branch that raises.
\<close>

theorem unknown_data_type_falls_back_to_text:
  "data_type \<notin> set recognized_members \<Longrightarrow>
   data_type_to_field_description module_load data_type = Text_INSTANCE module_load \<and>
   Text_INSTANCE module_load = Some TextFieldDescription"
  by (cases data_type)
     (simp_all add: recognized_members_def data_type_to_field_description_def module_load_Text)

theorem unknown_data_type_falls_back_to_text_witness:
  "OTHER 0 \<notin> set recognized_members \<and>
   data_type_to_field_description module_load (OTHER 0) = Some TextFieldDescription"
  using unknown_data_type_falls_back_to_text [of "OTHER 0"]
  by (simp add: recognized_members_def)

lemma default_has_its_data_type:
  "data_type \<in> set recognized_members \<Longrightarrow>
   \<exists>d. data_type_to_field_description module_load data_type = Some d \<and>
        get_data_type d = data_type"
  by (cases data_type)
     (simp_all add: recognized_members_def data_type_to_field_description_def module_load_simps)

text \<open>
  C2: the default description of a recognized member \<open>data_type\<close> has
  \<open>get_data_type\<close> equal to \<open>data_type\<close>; and \<open>get_data_type\<close> of a description is
  the constant of its class, whatever the parameters of the instance.
\<close>

theorem get_data_type_of_default_and_variant:
  "data_type \<in> set recognized_members \<Longrightarrow>
   (\<exists>d. data_type_to_field_description module_load data_type = Some d \<and>
        get_data_type d = data_type) \<and>
   get_data_type (BooleanFieldDescription true_word false_word) = BOOLEAN \<and>
   get_data_type (CurrencyDecimalFieldDescription pre currency wrapped) = CURRENCY_DECIMAL \<and>
   get_data_type (CurrencyIntegerFieldDescription pre currency wrapped) = CURRENCY_INTEGER \<and>
   get_data_type (DateFieldDescription date_format locale_name) = DATE \<and>
   get_data_type (DatetimeFieldDescription date_format locale_name) = DATETIME \<and>
   get_data_type (DecimalFieldDescription thousand_sep decimal_sep) = DECIMAL \<and>
   get_data_type (FloatFieldDescription thousand_sep decimal_sep) = FLOAT \<and>
   get_data_type (IntegerFieldDescription thousand_sep) = INTEGER \<and>
   get_data_type (PercentageFloatFieldDescription before sign wrapped) = PERCENTAGE_FLOAT \<and>
   get_data_type (PercentageDecimalFieldDescription before sign wrapped) = PERCENTAGE_DECIMAL \<and>
   get_data_type TextFieldDescription = TEXT"
  using default_has_its_data_type [of data_type] by simp

theorem get_data_type_of_default_and_variant_witness:
  "CURRENCY_INTEGER \<in> set recognized_members \<and>
   (\<exists>d. data_type_to_field_description module_load CURRENCY_INTEGER = Some d \<and>
        get_data_type d = CURRENCY_INTEGER)"
  using get_data_type_of_default_and_variant [of CURRENCY_INTEGER]
  by (simp add: recognized_members_def)

section \<open>Rendering\<close>

lemma util_render_words:
  "util_render out [a] = out @ a"
  "util_render out [a, b] = out @ a @ ''/'' @ b"
  "util_render out [a, b, c] = out @ a @ ''/'' @ b @ ''/'' @ c"
  by (simp_all add: util_render_def)

text \<open>
  C4: the currency description over a decimal one, with \<^verbatim>\<open>pre=False\<close>, currency
  \<^verbatim>\<open>$\<close>, no thousand separator and decimal separator \<^verbatim>\<open>.\<close>, writes exactly
  \<^verbatim>\<open>currency/post/$/decimal//.\<close> to the stream: its own segments, a \<^verbatim>\<open>/\<close>, then what
  the wrapped description writes.
\<close>

theorem currency_decimal_renders:
  "render (CurrencyDecimalFieldDescription (Some False) (Some ''$'')
             (Some (DecimalFieldDescription None ''.''))) out =
     (out @ ''currency/post/$/decimal//.'', None)"
  by (simp add: util_render_words none_to_empty_def truth_value_def)

text \<open>
  C5: the canonical percentage description over a float is built with
  \<^verbatim>\<open>pre=False\<close>, sign \<^verbatim>\<open>%\<close> and the canonical float description, and writes exactly
  \<^verbatim>\<open>percentage/post/%/float//.\<close> to the stream.
\<close>

theorem percentage_float_default_renders:
  "PercentageFloat_INSTANCE module_load =
     Some (PercentageFloatFieldDescription False (Some ''%'')
             (Some (FloatFieldDescription None ''.''))) \<and>
   render (PercentageFloatFieldDescription False (Some ''%'')
             (Some (FloatFieldDescription None ''.''))) out =
     (out @ ''percentage/post/%/float//.'', None)"
  by (simp add: module_load_PercentageFloat util_render_words none_to_empty_def)

text \<open>
  C6: a boolean description writes \<^verbatim>\<open>boolean/<true_word>/<false_word>\<close> when the false
  word is not empty, and \<^verbatim>\<open>boolean/<true_word>\<close> when it is.
\<close>

theorem boolean_renders:
  "render (BooleanFieldDescription true_word false_word) out =
     (if false_word \<noteq> ''''
      then (out @ ''boolean/'' @ true_word @ ''/'' @ false_word, None)
      else (out @ ''boolean/'' @ true_word, None))"
  by (simp add: util_render_words)

text \<open>
  C7: an absent last parameter is left out, an absent parameter before another one
  is an empty segment. An integer description with no thousand separator writes
  \<^verbatim>\<open>integer\<close>, with the separator \<open>s\<close> it writes \<^verbatim>\<open>integer/<s>\<close>; a date or datetime
  description with no locale writes \<^verbatim>\<open>date/<pattern>\<close> or \<^verbatim>\<open>datetime/<pattern>\<close>; a
  float or decimal description with no thousand separator writes the empty segment
  before the decimal separator, as in \<^verbatim>\<open>float//.\<close>.
\<close>

theorem optional_parameters_render:
  "render (IntegerFieldDescription None) out = (out @ ''integer'', None) \<and>
   render (IntegerFieldDescription (Some s)) out = (out @ ''integer/'' @ s, None) \<and>
   render (DateFieldDescription pattern None) out = (out @ ''date/'' @ pattern, None) \<and>
   render (DatetimeFieldDescription pattern None) out =
     (out @ ''datetime/'' @ pattern, None) \<and>
   render (FloatFieldDescription None decimal_sep) out =
     (out @ ''float//'' @ decimal_sep, None) \<and>
   render (DecimalFieldDescription None decimal_sep) out =
     (out @ ''decimal//'' @ decimal_sep, None) \<and>
   render (FloatFieldDescription None ''.'') '''' = (''float//.'', None)"
  by (simp add: util_render_words none_to_empty_def)

lemma none_to_empty_simps:
  "none_to_empty None = []"
  "none_to_empty (Some s) = s"
  by (simp_all add: none_to_empty_def)

text \<open>Whatever a description writes, it writes after what the stream holds already.\<close>

lemma appends_after_prefix:
  assumes "\<exists>rest. fst (render w (out @ written)) = (out @ written) @ rest"
  shows "\<exists>rest. fst (render w (out @ written)) = out @ rest"
proof -
  from assms obtain rest where "fst (render w (out @ written)) = (out @ written) @ rest" ..
  then have "fst (render w (out @ written)) = out @ (written @ rest)" by simp
  then show ?thesis ..
qed

lemma render_appends: "\<exists>rest. fst (render d out) = out @ rest"
proof (induction d out rule: render.induct)
  case (2 pre currency decimal_description out)
  show ?case
  proof (cases decimal_description)
    case None
    then show ?thesis by (simp add: util_render_def)
  next
    case (Some w)
    from 2 [OF refl refl refl refl Some] Some show ?thesis
      by (simp add: util_render_def appends_after_prefix)
  qed
next
  case (3 pre currency integer_description out)
  show ?case
  proof (cases integer_description)
    case None
    then show ?thesis by (simp add: util_render_def)
  next
    case (Some w)
    from 3 [OF refl refl refl refl Some] Some show ?thesis
      by (simp add: util_render_def appends_after_prefix)
  qed
next
  case (9 pre sign float_description out)
  show ?case
  proof (cases float_description)
    case None
    then show ?thesis by (simp add: util_render_def)
  next
    case (Some w)
    from 9 [OF refl refl refl Some] Some show ?thesis
      by (simp add: util_render_def appends_after_prefix)
  qed
next
  case (10 pre sign decimal_description out)
  show ?case
  proof (cases decimal_description)
    case None
    then show ?thesis by (simp add: util_render_def)
  next
    case (Some w)
    from 10 [OF refl refl refl Some] Some show ?thesis
      by (simp add: util_render_def appends_after_prefix)
  qed
qed (simp_all add: util_render_def split: option.splits)

lemma currency_integer_post_written:
  "\<exists>rest. fst (render (CurrencyIntegerFieldDescription None currency wrapped) out) =
          out @ ''currency/post/'' @ rest"
proof (cases wrapped)
  case None
  then show ?thesis
    by (simp add: util_render_def none_to_empty_simps truth_value_def)
next
  case (Some d)
  let ?written = "out @ ''currency/post/'' @ none_to_empty currency @ ''/''"
  from render_appends [of d ?written] obtain rest where
    "fst (render d ?written) = ?written @ rest" ..
  moreover have "render (CurrencyIntegerFieldDescription None currency wrapped) out =
                 render d ?written"
    using Some by (simp add: util_render_def none_to_empty_simps truth_value_def)
  ultimately have "fst (render (CurrencyIntegerFieldDescription None currency wrapped) out) =
                   out @ ''currency/post/'' @ (none_to_empty currency @ ''/'' @ rest)"
    by simp
  then show ?thesis ..
qed

lemma currency_decimal_post_written:
  "\<exists>rest. fst (render (CurrencyDecimalFieldDescription None currency wrapped) out) =
          out @ ''currency/post/'' @ rest"
proof (cases wrapped)
  case None
  then show ?thesis
    by (simp add: util_render_def none_to_empty_simps truth_value_def)
next
  case (Some d)
  let ?written = "out @ ''currency/post/'' @ none_to_empty currency @ ''/''"
  from render_appends [of d ?written] obtain rest where
    "fst (render d ?written) = ?written @ rest" ..
  moreover have "render (CurrencyDecimalFieldDescription None currency wrapped) out =
                 render d ?written"
    using Some by (simp add: util_render_def none_to_empty_simps truth_value_def)
  ultimately have "fst (render (CurrencyDecimalFieldDescription None currency wrapped) out) =
                   out @ ''currency/post/'' @ (none_to_empty currency @ ''/'' @ rest)"
    by simp
  then show ?thesis ..
qed

text \<open>
  C9: a currency description over an integer or a decimal, built with \<^verbatim>\<open>pre=None\<close>,
  renders as the one built with \<^verbatim>\<open>pre=False\<close> does, and what it writes starts with
  \<^verbatim>\<open>currency/post/\<close>. The two canonical currency instances are built with
  \<^verbatim>\<open>pre=None\<close>, and their \<^verbatim>\<open>render\<close> writes \<^verbatim>\<open>currency/post//\<close>: the flag segment is
  \<^verbatim>\<open>post\<close>, not the empty one. (Their wrapped description is \<^verbatim>\<open>None\<close>, so the call
  raises once these segments are written.)
\<close>

theorem absent_pre_renders_post:
  "render (CurrencyIntegerFieldDescription None currency wrapped) out =
     render (CurrencyIntegerFieldDescription (Some False) currency wrapped) out \<and>
   render (CurrencyDecimalFieldDescription None currency wrapped) out =
     render (CurrencyDecimalFieldDescription (Some False) currency wrapped) out \<and>
   (\<exists>rest. fst (render (CurrencyIntegerFieldDescription None currency wrapped) out) =
            out @ ''currency/post/'' @ rest) \<and>
   (\<exists>rest. fst (render (CurrencyDecimalFieldDescription None currency wrapped) out) =
            out @ ''currency/post/'' @ rest) \<and>
   CurrencyInteger_INSTANCE module_load =
     Some (CurrencyIntegerFieldDescription None None None) \<and>
   CurrencyDecimal_INSTANCE module_load =
     Some (CurrencyDecimalFieldDescription None None None) \<and>
   render (CurrencyIntegerFieldDescription None None None) out =
     (out @ ''currency/post//'', Some AttributeError) \<and>
   render (CurrencyDecimalFieldDescription None None None) out =
     (out @ ''currency/post//'', Some AttributeError)"
proof -
  have "render (CurrencyIntegerFieldDescription None currency wrapped) out =
     render (CurrencyIntegerFieldDescription (Some False) currency wrapped) out"
    by (simp add: truth_value_def)
  moreover have "render (CurrencyDecimalFieldDescription None currency wrapped) out =
     render (CurrencyDecimalFieldDescription (Some False) currency wrapped) out"
    by (simp add: truth_value_def)
  moreover note currency_integer_post_written [of currency wrapped out]
  moreover note currency_decimal_post_written [of currency wrapped out]
  moreover note module_load_CurrencyInteger module_load_CurrencyDecimal
  moreover have "render (CurrencyIntegerFieldDescription None None None) out =
     (out @ ''currency/post//'', Some AttributeError)"
    by (simp add: util_render_def none_to_empty_simps truth_value_def)
  moreover have "render (CurrencyDecimalFieldDescription None None None) out =
     (out @ ''currency/post//'', Some AttributeError)"
    by (simp add: util_render_def none_to_empty_simps truth_value_def)
  ultimately show ?thesis by blast
qed

section \<open>Building the processor\<close>

text \<open>No call of \<^verbatim>\<open>to_field_processor\<close> changes the description, whether it returns or raises.\<close>

lemma to_field_processor_self: "fst (to_field_processor d token) = d"
proof (induction d token rule: to_field_processor.induct)
  case (2 pre currency decimal_description token)
  then show ?case
    by (cases decimal_description) (auto split: prod.splits sum.splits)
next
  case (3 pre currency integer_description token)
  then show ?case
    by (cases integer_description) (auto split: prod.splits sum.splits)
next
  case (9 pre sign float_description token)
  then show ?case
    by (cases float_description) (auto split: prod.splits sum.splits)
next
  case (10 pre sign decimal_description token)
  then show ?case
    by (cases decimal_description) (auto split: prod.splits sum.splits)
qed simp_all

lemma render_after_to_field_processor:
  "render (fst (to_field_processor d token)) out = render d out"
  by (simp add: to_field_processor_self)

text \<open>
  C8, at the canonical currency instances: the registry resolves
  \<^verbatim>\<open>CURRENCY_INTEGER\<close> and \<^verbatim>\<open>CURRENCY_DECIMAL\<close> to descriptions whose wrapped description
  is \<^verbatim>\<open>None\<close>, and \<^verbatim>\<open>to_field_processor\<close> of these raises \<^verbatim>\<open>AttributeError\<close> instead of
  returning a processor. The description is unchanged by the call.
\<close>

theorem default_currency_to_field_processor_raises:
  "data_type_to_field_description module_load CURRENCY_INTEGER =
     Some (CurrencyIntegerFieldDescription None None None) \<and>
   to_field_processor (CurrencyIntegerFieldDescription None None None) '''' =
     (CurrencyIntegerFieldDescription None None None, Inl AttributeError) \<and>
   data_type_to_field_description module_load CURRENCY_DECIMAL =
     Some (CurrencyDecimalFieldDescription None None None) \<and>
   to_field_processor (CurrencyDecimalFieldDescription None None None) '''' =
     (CurrencyDecimalFieldDescription None None None, Inl AttributeError)"
  by (simp add: data_type_to_field_description_def module_load_simps)

section \<open>The row mapping\<close>

lemma all_below_Suc:
  "(\<forall>k<Suc n. P k) \<longleftrightarrow> P 0 \<and> (\<forall>k<n. P (Suc k))"
  by (auto simp add: less_Suc_eq_0_disj)

lemma map_cells_enumerate:
  "map_cells to_string str processors (enumerate n row) = Inr cells \<longleftrightarrow>
   length cells = length row \<and>
   (\<forall>k<length row.
      (case processors (n + k) of
         Some p \<Rightarrow> to_string p (row ! k)
       | None \<Rightarrow> Inr (str (row ! k))) = Inr (cells ! k))"
proof (induction row arbitrary: n cells)
  case Nil
  then show ?case by auto
next
  case (Cons v row)
  show ?case
  proof (cases cells)
    case Nil
    then show ?thesis by (simp split: sum.splits)
  next
    case (Cons c cs)
    have "map_cells to_string str processors (enumerate n (v # row)) = Inr (c # cs) \<longleftrightarrow>
          (case processors n of Some p \<Rightarrow> to_string p v | None \<Rightarrow> Inr (str v)) = Inr c \<and>
          map_cells to_string str processors (enumerate (Suc n) row) = Inr cs"
      by (auto split: sum.splits)
    with Cons Cons.IH [of "Suc n" cs] show ?thesis
      by (simp add: all_below_Suc cong: option.case_cong) blast
  qed
qed

lemma map_cells_returns:
  assumes "\<And>p v. \<exists>c. to_string p v = Inr c"
  shows "\<exists>cells. map_cells to_string str processors ivs = Inr cells"
proof (induction ivs)
  case Nil
  show ?case by simp
next
  case (Cons iv ivs)
  obtain i v where iv: "iv = (i, v)" by (cases iv)
  obtain cell where
    "(case processors i of Some p \<Rightarrow> to_string p v | None \<Rightarrow> Inr (str v)) = Inr cell"
    using assms by (cases "processors i") auto
  moreover from Cons.IH obtain cells where
    "map_cells to_string str processors ivs = Inr cells" ..
  ultimately show ?case using iv by simp
qed

lemma build_processors_at:
  assumes "build_processors token items acc = Inr m" and "distinct (map fst items)"
  shows "case map_of items i of
           None \<Rightarrow> m i = acc i
         | Some d \<Rightarrow> \<exists>p. snd (to_field_processor d token) = Inr p \<and> m i = Some p"
  using assms
proof (induction items arbitrary: acc)
  case Nil
  then show ?case by simp
next
  case (Cons item items)
  obtain j d where item: "item = (j, d)" by (cases item)
  from Cons.prems(1) item obtain p where
    p: "snd (to_field_processor d token) = Inr p" and
    rest: "build_processors token items (acc(j \<mapsto> p)) = Inr m"
    by (auto split: sum.splits)
  from Cons.prems(2) item have dist: "distinct (map fst items)" and fresh: "j \<notin> fst ` set items"
    by simp_all
  note ih = Cons.IH [OF rest dist]
  show ?case
  proof (cases "i = j")
    case True
    with fresh have "map_of items i = None" by (simp add: map_of_eq_None_iff)
    with ih True have "m i = Some p" by simp
    with True item p show ?thesis by simp
  next
    case False
    with ih item show ?thesis by (simp split: option.splits)
  qed
qed

text \<open>
  C10: let the row mapping be built for a table (the dictionary of the descriptions
  holding each index once). For every row it returns the list \<open>cells\<close> exactly when
  \<open>cells\<close> is as long as the row and cell \<open>i\<close> is what \<^verbatim>\<open>to_string\<close> of the processor of
  column \<open>i\<close> returns for the value, where index \<open>i\<close> has a description, and the plain
  \<^verbatim>\<open>str\<close> of the value otherwise; the processor of a described column is the one its
  description builds with the null-value token of the table. With a \<^verbatim>\<open>to_string\<close> that
  never raises, the mapping returns such a list for every row.
\<close>

theorem map_row_cells:
  assumes "distinct (map fst (field_description_by_index data))"
    and "get_map_row to_string str data = Inr mapping"
  shows "(mapping row = Inr cells \<longleftrightarrow>
          length cells = length row \<and>
          (\<forall>i<length row.
             case map_of (field_description_by_index data) i of
               None \<Rightarrow> cells ! i = str (row ! i)
             | Some d \<Rightarrow>
                 \<exists>p. snd (to_field_processor d (null_value data)) = Inr p \<and>
                     to_string p (row ! i) = Inr (cells ! i))) \<and>
         ((\<forall>p v. \<exists>c. to_string p v = Inr c) \<longrightarrow> (\<exists>returned. mapping row = Inr returned))"
proof -
  from assms(2) obtain processors where
    built: "build_processors (null_value data) (field_description_by_index data) Map.empty =
            Inr processors" and
    mapping: "mapping = map_row to_string str processors"
    by (auto simp add: get_map_row_def split: sum.splits)
  have cell: "(case processors i of
                 Some p \<Rightarrow> to_string p v
               | None \<Rightarrow> Inr (str v)) = Inr c \<longleftrightarrow>
              (case map_of (field_description_by_index data) i of
                 None \<Rightarrow> c = str v
               | Some d \<Rightarrow>
                   \<exists>p. snd (to_field_processor d (null_value data)) = Inr p \<and>
                       to_string p v = Inr c)" for i v c
    using build_processors_at [OF built assms(1), of i]
    by (cases "map_of (field_description_by_index data) i") auto
  have "mapping row = Inr cells \<longleftrightarrow>
          length cells = length row \<and>
          (\<forall>i<length row.
             case map_of (field_description_by_index data) i of
               None \<Rightarrow> cells ! i = str (row ! i)
             | Some d \<Rightarrow>
                 \<exists>p. snd (to_field_processor d (null_value data)) = Inr p \<and>
                     to_string p (row ! i) = Inr (cells ! i))"
    unfolding mapping map_row_def map_cells_enumerate [of to_string str processors 0 row cells]
    by (simp add: cell)
  moreover have "\<exists>returned. mapping row = Inr returned"
    if "\<forall>p v. \<exists>c. to_string p v = Inr c"
    unfolding mapping map_row_def using that by (intro map_cells_returns) blast
  ultimately show ?thesis by blast
qed

theorem map_row_cells_witness:
  "distinct (map fst (field_description_by_index
      \<lparr>null_value = ''NULL'',
       field_description_by_index = [(1, IntegerFieldDescription None)]\<rparr>)) \<and>
   (\<exists>mapping.
      get_map_row (\<lambda>p v. Inr (''<'' @ v @ ''>'')) (\<lambda>v. v)
        \<lparr>null_value = ''NULL'',
         field_description_by_index = [(1, IntegerFieldDescription None)]\<rparr> = Inr mapping \<and>
      mapping [''a'', ''7''] = Inr [''a'', ''<7>''])"
proof -
  let ?data = "\<lparr>null_value = ''NULL'',
         field_description_by_index = [(1, IntegerFieldDescription None)]\<rparr>"
  let ?to_string =
    "\<lambda>(p::FieldProcessor) (v::string). (Inr (''<'' @ v @ ''>'') :: error + string)"
  let ?mapping = "map_row ?to_string (\<lambda>v. v) [1 \<mapsto> IntegerFieldProcessor None ''NULL'']"
  have d: "distinct (map fst (field_description_by_index ?data))" by simp
  have b: "get_map_row ?to_string (\<lambda>v. v) ?data = Inr ?mapping"
    by (simp add: get_map_row_def)
  have "?mapping [''a'', ''7''] = Inr [''a'', ''<7>'']"
    using map_row_cells [OF d b, of "[''a'', ''7'']" "[''a'', ''<7>'']"]
    by (simp add: all_below_Suc)
  with d b show ?thesis by blast
qed

end
